theory Spec2Isabelle
  imports Complex_Main
begin

section \<open>Python values shared by the modules\<close>

text \<open>
  Exceptions of the source are values: a failing call returns \<open>Inl\<close> of the exception
  it raises. \<open>ValueError\<close> and \<open>AssertionError\<close> carry their message.
\<close>

datatype error =
    AssertionError string
  | ValueError string
  | IndexError
  | KeyError
  | TypeError
  | AttributeError
  | ZeroDivisionError

section \<open>Ruleset framework: \<open>pooltool/game/ruleset/datatypes.py\<close>\<close>

subsection \<open>Player\<close>

record Player =
  name :: string

text \<open>
  \<open>Player.create_players(names)\<close>: \<open>None\<close> is replaced by the two default names;
  \<open>len(set(names))\<close> is the number of different names, \<open>card (set names)\<close>;
  the failing \<open>assert\<close> raises \<open>AssertionError\<close> with the message of the source.
\<close>

definition create_players :: "string list option \<Rightarrow> error + Player list" where
  "create_players names_opt =
     (let names = (case names_opt of None \<Rightarrow> [''Player 1'', ''Player 2''] | Some ns \<Rightarrow> ns)
      in if length names = card (set names)
         then Inr (map (\<lambda>n. \<lparr>name = n\<rparr>) names)
         else Inl (AssertionError ''Player names must be unique''))"

subsection \<open>ShotConstraints\<close>

datatype BallInHandOptions = NONE_IN_HAND | ANYWHERE | BEHIND_LINE | SEMICIRCLE

record ShotConstraints =
  ball_in_hand :: BallInHandOptions
  movable :: "string list option"
  cueable :: "string list option"
  hittable :: "string list"
  call_shot :: bool
  ball_call :: "string option"
  pocket_call :: "string option"

text \<open>
  The ball collection \<open>Balls\<close> is a dictionary from ball id to ball, kept in insertion
  order: an association list. \<open>cue in balls\<close> tests the keys,
  \<open>list(balls.keys())[0]\<close> is the first key, \<open>assert len(balls)\<close> fails on the empty
  collection, and \<open>self.cueable[0]\<close> raises \<open>IndexError\<close> on the empty list.
\<close>

fun probe :: "string list \<Rightarrow> string list \<Rightarrow> string option" where
  "probe [] ks = None"
| "probe (cue # rest) ks = (if cue \<in> set ks then Some cue else probe rest ks)"

definition cueball :: "ShotConstraints \<Rightarrow> (string \<times> 'b) list \<Rightarrow> error + string" where
  "cueball self balls =
     (case cueable self of
        None \<Rightarrow>
          (if length balls = 0 then Inl (AssertionError [])
           else (case probe [''cue'', ''white'', ''yellow''] (map fst balls) of
                   Some cue \<Rightarrow> Inr cue
                 | None \<Rightarrow> Inr (map fst balls ! 0)))
      | Some cs \<Rightarrow> (case cs of [] \<Rightarrow> Inl IndexError | c # _ \<Rightarrow> Inr c))"

definition can_shoot :: "ShotConstraints \<Rightarrow> bool" where
  "can_shoot self =
     (if call_shot self \<and> ball_call self \<noteq> None \<and> pocket_call self \<noteq> None then True
      else if \<not> call_shot self then True
      else False)"

subsection \<open>Log\<close>

text \<open>
  One entry of \<open>Log.msgs\<close>: the dictionary built by \<open>add_msg\<close>, a field per key.
  The \<open>Timer\<close> is outside this repository excerpt (a wall clock): the two values read
  from it by \<open>add_msg\<close>, \<open>timestamp()\<close> and \<open>time_elapsed(fmt=...)\<close>, are given to the
  model by its caller as a \<open>TimerReading\<close>.
\<close>

record TimerReading =
  timestamp :: real
  time_elapsed :: string

record LogEntry =
  entry_time :: real
  elapsed :: string
  msg :: string
  quiet :: bool
  sentiment :: string
  broadcast :: bool

record Log =
  msgs :: "LogEntry list"
  update :: bool

definition Log_init :: Log where
  "Log_init = \<lparr>msgs = [], update = False\<rparr>"

definition add_msg :: "Log \<Rightarrow> TimerReading \<Rightarrow> string \<Rightarrow> string \<Rightarrow> bool \<Rightarrow> Log" where
  "add_msg self timer m sent q =
     (let self1 = self\<lparr>msgs := msgs self @
                    [\<lparr>entry_time = timestamp timer, elapsed = time_elapsed timer, msg = m,
                      quiet = q, sentiment = sent, broadcast = False\<rparr>]\<rparr>
      in if \<not> q then self1\<lparr>update := True\<rparr> else self1)"

subsection \<open>ShotInfo and the shot handed to a ruleset\<close>

record ShotInfo =
  player :: Player
  legal :: bool
  reason :: string
  turn_over :: bool
  game_over :: bool
  winner :: "Player option"
  info_score :: "(string \<times> int) list"

text \<open>
  Of the \<open>System\<close> passed to a ruleset, the code here reads \<open>shot.balls\<close> and writes
  \<open>shot.cue.cue_ball_id\<close>.
\<close>

record 'b System =
  cue_ball_id :: string
  shot_balls :: "(string \<times> 'b) list"

subsection \<open>Ruleset\<close>

text \<open>
  The attributes of a \<open>Ruleset\<close> instance. \<open>__init__\<close> only annotates \<open>shot_info\<close>,
  it does not assign it: the attribute exists from the first \<open>process_shot\<close> on, hence
  the \<open>option\<close>, and reading it earlier raises \<open>AttributeError\<close>. Python integers are
  unbounded: \<open>int\<close>.
\<close>

record Ruleset =
  score :: "(string \<times> int) list"
  shot_number :: int
  turn_number :: int
  shot_constraints :: ShotConstraints
  shot_info :: "ShotInfo option"
  players :: "Player list"
  active_idx :: int
  log :: Log

text \<open>
  The four abstract methods, supplied by a concrete ruleset. They are taken as functions
  of the ruleset and the shot; \<open>respot_balls\<close> returns the shot it has changed.
\<close>

record 'b RulesetMethods =
  build_shot_info :: "Ruleset \<Rightarrow> 'b System \<Rightarrow> ShotInfo"
  next_shot_constraints :: "Ruleset \<Rightarrow> 'b System \<Rightarrow> ShotConstraints"
  initial_shot_constraints :: ShotConstraints
  respot_balls :: "Ruleset \<Rightarrow> 'b System \<Rightarrow> 'b System"


text \<open>
  \<open>self.players[i]\<close>: Python indexing, negative indices count from the end and an index
  out of range raises \<open>IndexError\<close>.
\<close>

definition py_index :: "'a list \<Rightarrow> int \<Rightarrow> error + 'a" where
  "py_index xs i =
     (if 0 \<le> i \<and> i < int (length xs) then Inr (xs ! nat i)
      else if i < 0 \<and> - int (length xs) \<le> i then Inr (xs ! nat (int (length xs) + i))
      else Inl IndexError)"

text \<open>
  Python's \<open>%\<close> on integers rounds towards minus infinity, as \<open>mod\<close> on \<open>int\<close>
  does, and raises \<open>ZeroDivisionError\<close> for the divisor 0, where HOL returns the dividend.
\<close>

definition py_mod :: "int \<Rightarrow> int \<Rightarrow> error + int" where
  "py_mod a b = (if b = 0 then Inl ZeroDivisionError else Inr (a mod b))"

definition active_player :: "Ruleset \<Rightarrow> error + Player" where
  "active_player self = py_index (players self) (active_idx self)"

definition last_player :: "Ruleset \<Rightarrow> error + Player" where
  "last_player self =
     (case py_mod (active_idx self - 1) (int (length (players self))) of
        Inl e \<Rightarrow> Inl e
      | Inr last_idx \<Rightarrow> py_index (players self) last_idx)"

definition set_next_player :: "Ruleset \<Rightarrow> error + Ruleset" where
  "set_next_player self =
     (case py_mod (turn_number self) (int (length (players self))) of
        Inl e \<Rightarrow> Inl e
      | Inr i \<Rightarrow> Inr (self\<lparr>active_idx := i\<rparr>))"


text \<open>
  \<open>advance\<close> changes the ruleset and the shot in place, step by step. An exception
  leaves both objects as they are at the moment it is raised, and the caller still holds
  them: a call that raises returns \<open>Inl\<close> of the exception with the ruleset and the
  shot in that state, a call that completes returns \<open>Inr\<close> of the two. The game-over
  branch returns after its one \<open>add_msg\<close>; the other branch runs in the order of the
  source, so \<open>cueball\<close> raises after the counters and the constraints are assigned and
  \<open>set_next_player\<close> after the cue ball id is.
\<close>

definition advance ::
  "'b RulesetMethods \<Rightarrow> TimerReading \<Rightarrow> Ruleset \<Rightarrow> 'b System \<Rightarrow>
   (error \<times> Ruleset \<times> 'b System) + (Ruleset \<times> 'b System)" where
  "advance sub timer self shot =
     (case shot_info self of
        None \<Rightarrow> Inl (AttributeError, self, shot)
      | Some si \<Rightarrow>
          if game_over si then
            (case winner si of
               Some w \<Rightarrow>
                 Inr (self\<lparr>log := add_msg (log self) timer
                                   (''Game over! '' @ name w @ '' wins!'') ''good'' False\<rparr>, shot)
             | None \<Rightarrow>
                 Inr (self\<lparr>log := add_msg (log self) timer
                                   ''Game over! Tie game!'' ''good'' False\<rparr>, shot))
          else
            (let self1 = (if turn_over si then self\<lparr>turn_number := turn_number self + 1\<rparr> else self);
                 self2 = self1\<lparr>shot_number := shot_number self1 + 1\<rparr>;
                 self3 = self2\<lparr>shot_constraints := next_shot_constraints sub self2 shot\<rparr>
             in case cueball (shot_constraints self3) (shot_balls shot) of
                  Inl e \<Rightarrow> Inl (e, self3, shot)
                | Inr c \<Rightarrow>
                    (case set_next_player self3 of
                       Inl e \<Rightarrow> Inl (e, self3, shot\<lparr>cue_ball_id := c\<rparr>)
                     | Inr self4 \<Rightarrow> Inr (self4, shot\<lparr>cue_ball_id := c\<rparr>))))"






section \<open>Event times\<close>

text \<open>
  A time is a Python float. Of the floats, the model keeps the finite values, read as
  real numbers, and \<open>+infinity\<close> (\<open>np.inf\<close>), with the order and the addition floats
  have on them; \<open>NaN\<close>, \<open>-infinity\<close> and the rounding of an addition are outside it.
\<close>

datatype etime = Fin real | PInf

instantiation etime :: "{linorder, plus}"
begin

fun less_eq_etime :: "etime \<Rightarrow> etime \<Rightarrow> bool" where
  "less_eq_etime (Fin a) (Fin b) = (a \<le> b)"
| "less_eq_etime (Fin a) PInf = True"
| "less_eq_etime PInf (Fin b) = False"
| "less_eq_etime PInf PInf = True"

fun less_etime :: "etime \<Rightarrow> etime \<Rightarrow> bool" where
  "less_etime (Fin a) (Fin b) = (a < b)"
| "less_etime (Fin a) PInf = True"
| "less_etime PInf (Fin b) = False"
| "less_etime PInf PInf = False"

fun plus_etime :: "etime \<Rightarrow> etime \<Rightarrow> etime" where
  "plus_etime (Fin a) (Fin b) = Fin (a + b)"
| "plus_etime (Fin a) PInf = PInf"
| "plus_etime PInf (Fin b) = PInf"
| "plus_etime PInf PInf = PInf"

instance
proof
  fix x y z :: etime
  show "(x < y) = (x \<le> y \<and> \<not> y \<le> x)"
    by (cases x; cases y) auto
  show "x \<le> x"
    by (cases x) auto
  show "x \<le> y \<Longrightarrow> y \<le> z \<Longrightarrow> x \<le> z"
    by (cases x; cases y; cases z) auto
  show "x \<le> y \<Longrightarrow> y \<le> x \<Longrightarrow> x = y"
    by (cases x; cases y) auto
  show "x \<le> y \<or> y \<le> x"
    by (cases x; cases y) auto
qed

end

section \<open>Event factory: \<open>pooltool/events/_events.py\<close>\<close>

datatype EventType =
    NONE
  | BALL_BALL
  | BALL_LINEAR_CUSHION
  | BALL_CIRCULAR_CUSHION
  | BALL_POCKET
  | STICK_BALL
  | SPINNING_STATIONARY
  | ROLLING_STATIONARY
  | ROLLING_SPINNING
  | SLIDING_ROLLING

text \<open>
  An \<open>Event\<close> has its kind, its agents (a tuple, here a list in the same order) and its
  time. The type of an agent is left open: the factory wraps objects with
  \<open>Agent.from_object\<close>, the engine of \<open>evolution.py\<close> stores the objects themselves.
\<close>

record 'a Event =
  event_type :: EventType
  agents :: "'a list"
  time :: etime

text \<open>
  The objects the factory is given, by the class its signature names (\<open>Ball\<close>,
  \<open>Cue\<close>, \<open>LinearCushionSegment\<close>, \<open>CircularCushionSegment\<close>, \<open>Pocket\<close>, and
  the \<open>NullObject()\<close> of \<open>null_event\<close>); an object is referred to by its id. \<open>Agent.from_object\<close> is a class method of
  \<open>pooltool.events.datatypes\<close>, which is not part of the sources at hand: every
  constructor takes it as its first argument \<open>from_object\<close>. The default of
  \<open>set_initial\<close> is \<open>False\<close>.
\<close>

datatype object =
    NullObject
  | BallRef string
  | CueRef string
  | LinearCushionRef string
  | CircularCushionRef string
  | PocketRef string

definition null_event :: "(object \<Rightarrow> bool \<Rightarrow> 'a) \<Rightarrow> etime \<Rightarrow> bool \<Rightarrow> 'a Event" where
  "null_event from_object tm set_initial =
     \<lparr>event_type = NONE,
      agents = [from_object NullObject set_initial],
      time = tm\<rparr>"

definition ball_ball_collision ::
  "(object \<Rightarrow> bool \<Rightarrow> 'a) \<Rightarrow> string \<Rightarrow> string \<Rightarrow> etime \<Rightarrow> bool \<Rightarrow> 'a Event" where
  "ball_ball_collision from_object ball1 ball2 tm set_initial =
     \<lparr>event_type = BALL_BALL,
      agents = [from_object (BallRef ball1) set_initial, from_object (BallRef ball2) set_initial],
      time = tm\<rparr>"

definition ball_linear_cushion_collision ::
  "(object \<Rightarrow> bool \<Rightarrow> 'a) \<Rightarrow> string \<Rightarrow> string \<Rightarrow> etime \<Rightarrow> bool \<Rightarrow> 'a Event" where
  "ball_linear_cushion_collision from_object ball cushion tm set_initial =
     \<lparr>event_type = BALL_LINEAR_CUSHION,
      agents = [from_object (BallRef ball) set_initial,
                from_object (LinearCushionRef cushion) set_initial],
      time = tm\<rparr>"

definition ball_circular_cushion_collision ::
  "(object \<Rightarrow> bool \<Rightarrow> 'a) \<Rightarrow> string \<Rightarrow> string \<Rightarrow> etime \<Rightarrow> bool \<Rightarrow> 'a Event" where
  "ball_circular_cushion_collision from_object ball cushion tm set_initial =
     \<lparr>event_type = BALL_CIRCULAR_CUSHION,
      agents = [from_object (BallRef ball) set_initial,
                from_object (CircularCushionRef cushion) set_initial],
      time = tm\<rparr>"

definition ball_pocket_collision ::
  "(object \<Rightarrow> bool \<Rightarrow> 'a) \<Rightarrow> string \<Rightarrow> string \<Rightarrow> etime \<Rightarrow> bool \<Rightarrow> 'a Event" where
  "ball_pocket_collision from_object ball pocket tm set_initial =
     \<lparr>event_type = BALL_POCKET,
      agents = [from_object (BallRef ball) set_initial, from_object (PocketRef pocket) set_initial],
      time = tm\<rparr>"

definition stick_ball_collision ::
  "(object \<Rightarrow> bool \<Rightarrow> 'a) \<Rightarrow> string \<Rightarrow> string \<Rightarrow> etime \<Rightarrow> bool \<Rightarrow> 'a Event" where
  "stick_ball_collision from_object stick ball tm set_initial =
     \<lparr>event_type = STICK_BALL,
      agents = [from_object (CueRef stick) set_initial, from_object (BallRef ball) set_initial],
      time = tm\<rparr>"

definition spinning_stationary_transition ::
  "(object \<Rightarrow> bool \<Rightarrow> 'a) \<Rightarrow> string \<Rightarrow> etime \<Rightarrow> bool \<Rightarrow> 'a Event" where
  "spinning_stationary_transition from_object ball tm set_initial =
     \<lparr>event_type = SPINNING_STATIONARY,
      agents = [from_object (BallRef ball) set_initial],
      time = tm\<rparr>"

definition rolling_stationary_transition ::
  "(object \<Rightarrow> bool \<Rightarrow> 'a) \<Rightarrow> string \<Rightarrow> etime \<Rightarrow> bool \<Rightarrow> 'a Event" where
  "rolling_stationary_transition from_object ball tm set_initial =
     \<lparr>event_type = ROLLING_STATIONARY,
      agents = [from_object (BallRef ball) set_initial],
      time = tm\<rparr>"

definition rolling_spinning_transition ::
  "(object \<Rightarrow> bool \<Rightarrow> 'a) \<Rightarrow> string \<Rightarrow> etime \<Rightarrow> bool \<Rightarrow> 'a Event" where
  "rolling_spinning_transition from_object ball tm set_initial =
     \<lparr>event_type = ROLLING_SPINNING,
      agents = [from_object (BallRef ball) set_initial],
      time = tm\<rparr>"

definition sliding_rolling_transition ::
  "(object \<Rightarrow> bool \<Rightarrow> 'a) \<Rightarrow> string \<Rightarrow> etime \<Rightarrow> bool \<Rightarrow> 'a Event" where
  "sliding_rolling_transition from_object ball tm set_initial =
     \<lparr>event_type = SLIDING_ROLLING,
      agents = [from_object (BallRef ball) set_initial],
      time = tm\<rparr>"

section \<open>Shot evolution engine: \<open>pooltool/evolution.py\<close>\<close>

subsection \<open>The objects of a system\<close>

datatype motion_state = stationary | spinning | sliding | rolling

text \<open>
  The events of \<open>evolution.py\<close> hold the objects involved: a ball or a rail of the
  system, referred to by its key in \<open>self.balls\<close> or \<open>self.table.rails\<close>, or one of
  the placeholders \<open>DummyBall()\<close> and \<open>NonObject()\<close>.
\<close>

datatype involved = DummyBall | NonObject | BallOf string | RailOf string

text \<open>
  The attributes of a ball and of a rail that the engine reads. The one-letter attributes
  \<open>s\<close>, \<open>R\<close>, \<open>m\<close>, \<open>g\<close> are written \<open>ball_s\<close>, \<open>ball_R\<close>, \<open>ball_m\<close>,
  \<open>ball_g\<close>; \<open>rvw\<close> is the 3 by 3 array of position, velocity and angular velocity.
\<close>

record Ball =
  rvw :: "real list list"
  ball_s :: motion_state
  ball_R :: real
  ball_m :: real
  u_s :: real
  u_sp :: real
  u_r :: real
  ball_g :: real
  next_transition_event :: "involved Event"

record Rail =
  lx :: real
  ly :: real
  l0 :: real

text \<open>
  The state of an \<open>EvolveShot\<close> that the event selection and the progress report read:
  the dictionaries \<open>self.balls\<close> and \<open>self.table.rails\<close> in insertion order, the
  current time \<open>self.t\<close> and the counter \<open>self.num_events\<close>.
\<close>

record EvolveShot =
  balls :: "(string \<times> Ball) list"
  rails :: "(string \<times> Rail) list"
  cur_t :: etime
  num_events :: int

text \<open>
  The two collision-time routines of the module \<open>physics\<close>, which is outside the
  sources at hand, with their keyword arguments in the order of the calls:
  \<open>rvw1 rvw2 s1 s2 mu1 mu2 m1 m2 g1 g2 R\<close> and \<open>rvw s lx ly l0 mu m g R\<close>.
\<close>

record physics =
  get_ball_ball_collision_time ::
    "real list list \<Rightarrow> real list list \<Rightarrow> motion_state \<Rightarrow> motion_state \<Rightarrow>
     real \<Rightarrow> real \<Rightarrow> real \<Rightarrow> real \<Rightarrow> real \<Rightarrow> real \<Rightarrow> real \<Rightarrow> etime"
  get_ball_rail_collision_time ::
    "real list list \<Rightarrow> motion_state \<Rightarrow> real \<Rightarrow> real \<Rightarrow> real \<Rightarrow> real \<Rightarrow> real \<Rightarrow> real \<Rightarrow> real \<Rightarrow> etime"

subsection \<open>The event classes used by the engine\<close>

text \<open>
  Modelled from the spec: the classes \<open>NonEvent\<close>, \<open>BallBallCollision\<close> and
  \<open>BallCushionCollision\<close> come from \<open>pooltool.events\<close> by a star import and are not
  in the sources at hand. After the spec, \<open>NonEvent\<close> is the sentinel of kind NONE, the
  ball-ball source wraps its result as a BALL_BALL event and the ball-rail source as a
  cushion-collision event, each holding the objects it is given, in that order, and the
  time \<open>t\<close>. The rails carry the line parameters \<open>lx\<close>, \<open>ly\<close>, \<open>l0\<close>, so the
  cushion event is given the linear-cushion kind; nothing below depends on that choice, nor
  on the agent of \<open>NonEvent\<close>.
\<close>

definition NonEvent :: "etime \<Rightarrow> involved Event" where
  "NonEvent tm = \<lparr>event_type = NONE, agents = [NonObject], time = tm\<rparr>"

definition BallBallCollision :: "involved \<Rightarrow> involved \<Rightarrow> etime \<Rightarrow> involved Event" where
  "BallBallCollision ball1 ball2 tm = \<lparr>event_type = BALL_BALL, agents = [ball1, ball2], time = tm\<rparr>"

definition BallCushionCollision :: "involved \<Rightarrow> involved \<Rightarrow> etime \<Rightarrow> involved Event" where
  "BallCushionCollision ball rail tm =
     \<lparr>event_type = BALL_LINEAR_CUSHION, agents = [ball, rail], time = tm\<rparr>"

subsection \<open>Selecting the next event\<close>

text \<open>
  Each \<open>for\<close> loop is a \<open>foldl\<close> over the values of the dictionary in insertion order,
  its state the variables the loop assigns; \<open>continue\<close> returns the state unchanged.
\<close>

definition transition_step :: "involved Event \<Rightarrow> string \<times> Ball \<Rightarrow> involved Event" where
  "transition_step event kb =
     (if time (next_transition_event (snd kb)) \<le> time event
      then next_transition_event (snd kb) else event)"

definition get_min_transition_event_time :: "EvolveShot \<Rightarrow> involved Event" where
  "get_min_transition_event_time self = foldl transition_step (NonEvent PInf) (balls self)"

definition ball_ball_step ::
  "physics \<Rightarrow> nat \<times> string \<times> Ball \<Rightarrow> etime \<times> involved \<times> involved \<Rightarrow>
   nat \<times> string \<times> Ball \<Rightarrow> etime \<times> involved \<times> involved" where
  "ball_ball_step ph e1 acc e2 =
     (case e1 of (i, id1, ball1) \<Rightarrow> case e2 of (j, id2, ball2) \<Rightarrow>
      case acc of (dtau_E_min, involved_balls) \<Rightarrow>
        if i \<ge> j then acc
        else if ball_s ball1 = stationary \<and> ball_s ball2 = stationary then acc
        else
          (let dtau_E = get_ball_ball_collision_time ph
                          (rvw ball1) (rvw ball2) (ball_s ball1) (ball_s ball2)
                          (if ball_s ball1 = sliding then u_s ball1 else u_r ball1)
                          (if ball_s ball2 = sliding then u_s ball2 else u_r ball2)
                          (ball_m ball1) (ball_m ball2) (ball_g ball1) (ball_g ball2)
                          (ball_R ball1)
           in if dtau_E < dtau_E_min then (dtau_E, (BallOf id1, BallOf id2)) else acc))"

definition get_min_ball_ball_event_time :: "physics \<Rightarrow> EvolveShot \<Rightarrow> involved Event" where
  "get_min_ball_ball_event_time ph self =
     (case foldl (\<lambda>acc e1. foldl (ball_ball_step ph e1) acc (enumerate 0 (balls self)))
                 (PInf, (DummyBall, DummyBall)) (enumerate 0 (balls self)) of
        (dtau_E, (ball1, ball2)) \<Rightarrow> BallBallCollision ball1 ball2 (cur_t self + dtau_E))"

definition ball_rail_step ::
  "physics \<Rightarrow> string \<times> Ball \<Rightarrow> etime \<times> involved \<times> involved \<Rightarrow>
   string \<times> Rail \<Rightarrow> etime \<times> involved \<times> involved" where
  "ball_rail_step ph kb acc kr =
     (case kb of (bid, ball) \<Rightarrow> case kr of (rid, rail) \<Rightarrow>
      case acc of (dtau_E_min, involved_agents) \<Rightarrow>
        (let dtau_E = get_ball_rail_collision_time ph
                        (rvw ball) (ball_s ball) (lx rail) (ly rail) (l0 rail)
                        (if ball_s ball = sliding then u_s ball else u_r ball)
                        (ball_m ball) (ball_g ball) (ball_R ball)
         in if dtau_E < dtau_E_min then (dtau_E, (BallOf bid, RailOf rid)) else acc))"

definition get_min_ball_rail_event_time :: "physics \<Rightarrow> EvolveShot \<Rightarrow> involved Event" where
  "get_min_ball_rail_event_time ph self =
     (case foldl (\<lambda>acc kb. if ball_s (snd kb) = stationary then acc
                           else foldl (ball_rail_step ph kb) acc (rails self))
                 (PInf, (DummyBall, NonObject)) (balls self) of
        (dtau_E, (ball, rail)) \<Rightarrow> BallCushionCollision ball rail (cur_t self + dtau_E))"

definition get_next_event :: "physics \<Rightarrow> EvolveShot \<Rightarrow> involved Event" where
  "get_next_event ph self =
     (let event0 = NonEvent PInf;
          transition_event = get_min_transition_event_time self;
          event1 = (if time transition_event < time event0 then transition_event else event0);
          ball_ball_event = get_min_ball_ball_event_time ph self;
          event2 = (if time ball_ball_event < time event1 then ball_ball_event else event1);
          ball_cushion_event = get_min_ball_rail_event_time ph self;
          event3 = (if time ball_cushion_event < time event2 then ball_cushion_event else event2)
      in event3)"

subsection \<open>Choosing the algorithm\<close>

datatype algorithm_class = EvolveShotEventBased

definition avail_algorithms :: "(string \<times> algorithm_class) list" where
  "avail_algorithms = [(''event-based'', EvolveShotEventBased)]"

text \<open>
  The text Python prints for a list of strings, \<open>str(list(d.keys()))\<close>: the \<open>repr\<close> of
  each string, separated by a comma and a space, in brackets. The \<open>repr\<close> of a string
  without quotes, backslashes or control characters is the string in single quotes.
\<close>

definition py_repr_str :: "string \<Rightarrow> string" where
  "py_repr_str x = [CHR 0x27] @ x @ [CHR 0x27]"

fun py_join :: "string \<Rightarrow> string list \<Rightarrow> string" where
  "py_join sep [] = []"
| "py_join sep [x] = x"
| "py_join sep (x # y # ys) = x @ sep @ py_join sep (y # ys)"

definition py_str_list :: "string list \<Rightarrow> string" where
  "py_str_list xs = ''['' @ py_join '', '' (map py_repr_str xs) @ '']''"

text \<open>
  \<open>EvolveShot.__new__\<close>, given the value of its parameter \<open>algorithm\<close>: the result
  is the class of which \<open>super().__new__\<close> makes the instance.
\<close>

definition EvolveShot_new :: "string \<Rightarrow> error + algorithm_class" where
  "EvolveShot_new algorithm =
     (if algorithm \<notin> set (map fst avail_algorithms)
      then Inl (ValueError
             (''You are expecting to evolve the system with algorithm '' @ [CHR 0x27] @ algorithm
              @ [CHR 0x27] @ '', which is not one of the ''
              @ ''possible db_types. Choose from: '' @ py_str_list (map fst avail_algorithms)))
      else (case map_of avail_algorithms algorithm of
              None \<Rightarrow> Inl KeyError
            | Some cls \<Rightarrow> Inr cls))"

text \<open>
  The call \<open>EvolveShot(...)\<close>. Python first calls \<open>__new__\<close> with the arguments of
  the call and then, the instance being an \<open>EvolveShot\<close>, its \<open>__init__\<close> with the
  same arguments. \<open>EvolveShotEventBased.__init__\<close> hands all of them to
  \<open>EvolveShot.__init__\<close>, whose parameters are \<open>cue\<close>, \<open>table\<close>, \<open>balls\<close>,
  \<open>run\<close> and \<open>progress\<close>: it has no parameter \<open>algorithm\<close>, so an algorithm
  given in the call (by keyword, or as a sixth positional argument) raises \<open>TypeError\<close>
  there. The argument of the model is the algorithm as the call gives it, \<open>None\<close> when
  the call leaves it to its default \<open>'event-based'\<close>; the other arguments are left to
  their defaults, and the initialisers of \<open>System\<close>, \<open>SystemHistory\<close> and
  \<open>ShotRender\<close>, outside the sources at hand, are taken to return.
\<close>

definition EvolveShot_init :: "string option \<Rightarrow> error + unit" where
  "EvolveShot_init algorithm_given =
     (case algorithm_given of None \<Rightarrow> Inr () | Some a \<Rightarrow> Inl TypeError)"

definition EvolveShot_call :: "string option \<Rightarrow> error + algorithm_class" where
  "EvolveShot_call algorithm_given =
     (case EvolveShot_new (case algorithm_given of None \<Rightarrow> ''event-based'' | Some a \<Rightarrow> a) of
        Inl e \<Rightarrow> Inl e
      | Inr cls \<Rightarrow>
          (case EvolveShot_init algorithm_given of
             Inl e \<Rightarrow> Inl e
           | Inr u \<Rightarrow> Inr cls))"

subsection \<open>The progress report of \<open>simulate\<close>\<close>



text \<open>
  What \<open>simulate\<close> and the event loop call outside the sources at hand, taken as given:
  the energy of the system (\<open>System.get_system_energy\<close>; energies are floats, read as
  real numbers), the printing of numbers inside an f-string (\<open>str_round2 x\<close> being the
  text of \<open>np.round(x, 2)\<close>), the methods of \<open>SystemHistory\<close> and \<open>ShotRender\<close>,
  the strike of the cue (\<open>self.cue.strike(t=self.t)\<close>, which returns its event and
  changes the system), the routine \<open>physics.evolve_ball_motion\<close> with its arguments
  \<open>state rvw R m u_s u_sp u_r g t\<close>, \<open>Ball.set\<close>, the \<open>resolve\<close> of an event, and
  \<open>Ball.set_playback_sequence\<close>. Each takes the system, or the ball, and returns it
  as it leaves it.
\<close>

record outside =
  get_system_energy :: "EvolveShot \<Rightarrow> real"
  str_round2 :: "real \<Rightarrow> string"
  str_int :: "int \<Rightarrow> string"
  reset_history :: "EvolveShot \<Rightarrow> EvolveShot"
  init_history :: "EvolveShot \<Rightarrow> EvolveShot"
  cue_strike :: "EvolveShot \<Rightarrow> involved Event \<times> EvolveShot"
  update_history :: "EvolveShot \<Rightarrow> involved Event \<Rightarrow> EvolveShot"
  end_history :: "EvolveShot \<Rightarrow> EvolveShot"
  evolve_ball_motion ::
    "motion_state \<Rightarrow> real list list \<Rightarrow> real \<Rightarrow> real \<Rightarrow> real \<Rightarrow> real \<Rightarrow> real \<Rightarrow> real \<Rightarrow> etime \<Rightarrow>
     real list list \<times> motion_state"
  ball_set :: "Ball \<Rightarrow> real list list \<Rightarrow> motion_state \<Rightarrow> etime \<Rightarrow> Ball"
  resolve :: "involved Event \<Rightarrow> EvolveShot \<Rightarrow> EvolveShot"
  continuize :: "EvolveShot \<Rightarrow> EvolveShot"
  vectorize_trajectories :: "EvolveShot \<Rightarrow> EvolveShot"
  set_playback_sequence :: "Ball \<Rightarrow> Ball"


text \<open>
  \<open>evolve\<close>: every ball is given the state that \<open>evolve_ball_motion\<close> computes for the
  duration \<open>dt\<close>, at the time \<open>self.t + dt\<close>.
\<close>

definition evolve :: "outside \<Rightarrow> EvolveShot \<Rightarrow> etime \<Rightarrow> EvolveShot" where
  "evolve out self dt =
     self\<lparr>balls :=
       map (\<lambda>kb. (fst kb,
              (case evolve_ball_motion out (ball_s (snd kb)) (rvw (snd kb)) (ball_R (snd kb))
                      (ball_m (snd kb)) (u_s (snd kb)) (u_sp (snd kb)) (u_r (snd kb))
                      (ball_g (snd kb)) dt of
                 (rvw1, s1) \<Rightarrow> ball_set out (snd kb) rvw1 s1 (cur_t self + dt))))
           (balls self)\<rparr>"






section \<open>The ball-ball source in the words of the specification\<close>

text \<open>
  The notions the specification uses for the ball-ball source, to be compared with the
  loops of \<open>get_min_ball_ball_event_time\<close>: the friction coefficient appropriate to a
  ball's state (the sliding coefficient if it slides, the rolling coefficient otherwise),
  the collision time of a pair of balls as the boundary routine computes it from both
  balls' data and the radius of the first, and a pair of which at least one ball is not
  stationary.
\<close>

definition friction :: "Ball \<Rightarrow> real" where
  "friction b =
     (case ball_s b of sliding \<Rightarrow> u_s b | stationary \<Rightarrow> u_r b | spinning \<Rightarrow> u_r b | rolling \<Rightarrow> u_r b)"

definition pair_collision_time :: "physics \<Rightarrow> Ball \<Rightarrow> Ball \<Rightarrow> etime" where
  "pair_collision_time ph b1 b2 =
     get_ball_ball_collision_time ph (rvw b1) (rvw b2) (ball_s b1) (ball_s b2)
       (friction b1) (friction b2) (ball_m b1) (ball_m b2) (ball_g b1) (ball_g b2) (ball_R b1)"

definition in_motion_pair :: "Ball \<Rightarrow> Ball \<Rightarrow> bool" where
  "in_motion_pair b1 b2 = (ball_s b1 \<noteq> stationary \<or> ball_s b2 \<noteq> stationary)"

text \<open>
  The same source as one pass over the pairs of enumerated balls: the pairs that are kept,
  the time and the objects of a pair, and the step that keeps the strictly smaller time.
\<close>

definition pair_kept :: "(nat \<times> string \<times> Ball) \<times> (nat \<times> string \<times> Ball) \<Rightarrow> bool" where
  "pair_kept p = (fst (fst p) < fst (snd p) \<and> in_motion_pair (snd (snd (fst p))) (snd (snd (snd p))))"

definition pair_key :: "physics \<Rightarrow> (nat \<times> string \<times> Ball) \<times> (nat \<times> string \<times> Ball) \<Rightarrow> etime" where
  "pair_key ph p = pair_collision_time ph (snd (snd (fst p))) (snd (snd (snd p)))"

definition pair_val :: "(nat \<times> string \<times> Ball) \<times> (nat \<times> string \<times> Ball) \<Rightarrow> involved \<times> involved" where
  "pair_val p = (BallOf (fst (snd (fst p))), BallOf (fst (snd (snd p))))"

definition pair_min ::
  "physics \<Rightarrow> etime \<times> involved \<times> involved \<Rightarrow>
   (nat \<times> string \<times> Ball) \<times> (nat \<times> string \<times> Ball) \<Rightarrow> etime \<times> involved \<times> involved" where
  "pair_min ph acc p = (if pair_key ph p < fst acc then (pair_key ph p, pair_val p) else acc)"

section \<open>Concrete instances\<close>

text \<open>
  Small concrete values at which the results below are evaluated: a shot constraint with
  a given cueable list, a shot outcome, a ruleset subclass whose abstract methods return
  constants, a second one for which the game is over as soon as a shot has been counted,
  a ruleset, a shot with the balls \<open>8\<close> and \<open>cue\<close>, a shot without balls, and a
  timer reading.
\<close>

definition demo_constraints :: "string list option \<Rightarrow> ShotConstraints" where
  "demo_constraints cs =
     \<lparr>ball_in_hand = NONE_IN_HAND, movable = None, cueable = cs, hittable = [],
      call_shot = False, ball_call = None, pocket_call = None\<rparr>"

definition demo_info :: "bool \<Rightarrow> bool \<Rightarrow> Player option \<Rightarrow> ShotInfo" where
  "demo_info t_over g_over w =
     \<lparr>player = \<lparr>name = ''Player 1''\<rparr>, legal = True, reason = [], turn_over = t_over,
      game_over = g_over, winner = w, info_score = []\<rparr>"

definition demo_methods :: "unit RulesetMethods" where
  "demo_methods =
     \<lparr>build_shot_info = (\<lambda>self shot. demo_info True False None),
      next_shot_constraints = (\<lambda>self shot. demo_constraints None),
      initial_shot_constraints = demo_constraints None,
      respot_balls = (\<lambda>self shot. shot)\<rparr>"


definition demo_ruleset :: "Player list \<Rightarrow> ShotInfo option \<Rightarrow> Ruleset" where
  "demo_ruleset ps si =
     \<lparr>score = [], shot_number = 0, turn_number = 0, shot_constraints = demo_constraints None,
      shot_info = si, players = ps, active_idx = 0, log = Log_init\<rparr>"

definition demo_shot :: "unit System" where
  "demo_shot = \<lparr>cue_ball_id = ''cue'', shot_balls = [(''8'', ()), (''cue'', ())]\<rparr>"


definition demo_timer :: TimerReading where
  "demo_timer = \<lparr>timestamp = 0, time_elapsed = ''0:00''\<rparr>"


definition demo_evolve0 :: EvolveShot where
  "demo_evolve0 = \<lparr>balls = [], rails = [], cur_t = Fin 0, num_events = 0\<rparr>"

text \<open>
  A system of four balls on a table with one rail: the cue ball slides, ball 1 spins in
  place, balls 2 and 3 are at rest. The collision times of the stand-in physics depend on
  the states and the friction coefficients they are given; a pair of stationary balls
  would collide at once if it were asked for. A second system has the cue ball alone, at
  a given time and with a given count of events, and a third only the two balls at rest.
\<close>

definition demo_ball :: "motion_state \<Rightarrow> involved Event \<Rightarrow> Ball" where
  "demo_ball st ev =
     \<lparr>rvw = [[0, 0, 0], [0, 0, 0], [0, 0, 0]], ball_s = st, ball_R = 1/40, ball_m = 1/6,
      u_s = 1/5, u_sp = 1/20, u_r = 1/100, ball_g = 10, next_transition_event = ev\<rparr>"

definition demo_physics :: physics where
  "demo_physics =
     \<lparr>get_ball_ball_collision_time =
        (\<lambda>rvw1 rvw2 s1 s2 mu1 mu2 m1 m2 g1 g2 R.
           if s1 = stationary \<and> s2 = stationary then Fin 0 else Fin (mu1 + mu2)),
      get_ball_rail_collision_time =
        (\<lambda>rvw s lx ly l0 mu m g R. if s = sliding then Fin 4 else PInf)\<rparr>"

definition demo_evolve :: EvolveShot where
  "demo_evolve =
     \<lparr>balls = [(''cue'', demo_ball sliding
                  \<lparr>event_type = SLIDING_ROLLING, agents = [BallOf ''cue''], time = Fin 2\<rparr>),
               (''1'', demo_ball spinning
                  \<lparr>event_type = SPINNING_STATIONARY, agents = [BallOf ''1''], time = Fin 2\<rparr>),
               (''2'', demo_ball stationary (NonEvent PInf)),
               (''3'', demo_ball stationary (NonEvent PInf))],
      rails = [(''L'', \<lparr>lx = 1, ly = 0, l0 = 0\<rparr>)],
      cur_t = Fin (99/50), num_events = 0\<rparr>"


definition demo_at_rest :: EvolveShot where
  "demo_at_rest =
     \<lparr>balls = [(''2'', demo_ball stationary (NonEvent PInf)),
               (''3'', demo_ball stationary (NonEvent PInf))],
      rails = [(''L'', \<lparr>lx = 1, ly = 0, l0 = 0\<rparr>)],
      cur_t = Fin 5, num_events = 7\<rparr>"

section \<open>Verified properties\<close>

subsection \<open>Ruleset framework\<close>

text \<open>
  Claim C7. \<open>create_players\<close> fails with the assertion error whenever two of the given
  names, at different positions, are equal; without names it returns the two players
  ``Player 1'' and ``Player 2'', in that order.
\<close>

theorem create_players_unique_or_default:
  "(i < j \<and> j < length names \<and> names ! i = names ! j \<longrightarrow>
      create_players (Some names) = Inl (AssertionError ''Player names must be unique'')) \<and>
   create_players None = Inr [\<lparr>name = ''Player 1''\<rparr>, \<lparr>name = ''Player 2''\<rparr>]"
proof (intro conjI impI)
  assume a: "i < j \<and> j < length names \<and> names ! i = names ! j"
  then have "\<not> distinct names"
    by (metis distinct_conv_nth less_trans nat_neq_iff)
  then have "length names \<noteq> card (set names)"
    using card_distinct by metis
  then show "create_players (Some names) = Inl (AssertionError ''Player names must be unique'')"
    by (simp add: create_players_def)
next
  show "create_players None = Inr [\<lparr>name = ''Player 1''\<rparr>, \<lparr>name = ''Player 2''\<rparr>]"
    by (simp add: create_players_def)
qed

theorem create_players_unique_or_default_witness:
  "(0::nat) < 2 \<and> 2 < length [''A'', ''B'', ''A''] \<and>
   [''A'', ''B'', ''A''] ! 0 = [''A'', ''B'', ''A''] ! 2 \<and>
   create_players (Some [''A'', ''B'', ''A'']) = Inl (AssertionError ''Player names must be unique'') \<and>
   create_players None = Inr [\<lparr>name = ''Player 1''\<rparr>, \<lparr>name = ''Player 2''\<rparr>]"
  using create_players_unique_or_default [of 0 2 "[''A'', ''B'', ''A'']"] by simp

text \<open>
  Claim C8. With an explicit cueable list, \<open>cueball\<close> returns its first entry. Without
  one, on a non-empty collection, it returns the first of ``cue'', ``white'', ``yellow''
  that is a key of the collection, and the first key of the collection when none is.
\<close>

theorem cueball_choice:
  "(cueable self = Some (c # cs) \<longrightarrow> cueball self bls = Inr c) \<and>
   (cueable self = None \<and> bls \<noteq> [] \<longrightarrow>
      cueball self bls =
        Inr (if ''cue'' \<in> fst ` set bls then ''cue''
             else if ''white'' \<in> fst ` set bls then ''white''
             else if ''yellow'' \<in> fst ` set bls then ''yellow''
             else fst (hd bls)))"
  by (cases bls) (simp_all add: cueball_def)

theorem cueball_choice_witness:
  "cueable (demo_constraints (Some [''9'', ''cue''])) = Some (''9'' # [''cue'']) \<and>
   cueball (demo_constraints (Some [''9'', ''cue''])) [(''8'', ()), (''cue'', ())] = Inr ''9'' \<and>
   cueable (demo_constraints None) = None \<and>
   cueball (demo_constraints None) [(''8'', ()), (''cue'', ())] = Inr ''cue'' \<and>
   cueball (demo_constraints None) [(''red'', ()), (''yellow'', ())] = Inr ''yellow'' \<and>
   cueball (demo_constraints None) [(''red'', ()), (''blue'', ())] = Inr ''red''"
proof -
  have h1: "cueable (demo_constraints (Some [''9'', ''cue''])) = Some (''9'' # [''cue''])"
    and h2: "cueable (demo_constraints None) = None"
    by (simp_all add: demo_constraints_def)
  show ?thesis
    using h1 h2
      cueball_choice [of "demo_constraints (Some [''9'', ''cue''])" "''9''" "[''cue'']" "[(''8'', ()), (''cue'', ())]"]
      cueball_choice [of "demo_constraints None" "''9''" "[''cue'']" "[(''8'', ()), (''cue'', ())]"]
      cueball_choice [of "demo_constraints None" "''9''" "[''cue'']" "[(''red'', ()), (''yellow'', ())]"]
      cueball_choice [of "demo_constraints None" "''9''" "[''cue'']" "[(''red'', ()), (''blue'', ())]"]
    by simp
qed

text \<open>
  Claim C10. With an explicit cueable list the result does not depend on the ball
  collection: it is the same as on the empty collection, where a non-empty list gives its
  first entry and the empty list gives \<open>IndexError\<close>. The emptiness check belongs to the
  other path: without a cueable list the empty collection fails the assertion.
\<close>

theorem cueball_explicit_list_ignores_balls:
  fixes bls :: "(string \<times> 'b) list"
  shows
  "(cueable self = Some cs \<longrightarrow> cueball self bls = cueball self ([] :: (string \<times> 'b) list)) \<and>
   (cueable self = Some (c # cs) \<longrightarrow> cueball self ([] :: (string \<times> 'b) list) = Inr c) \<and>
   (cueable self = Some [] \<longrightarrow> cueball self bls = Inl IndexError) \<and>
   (cueable self = None \<longrightarrow> cueball self ([] :: (string \<times> 'b) list) = Inl (AssertionError []))"
  by (simp add: cueball_def)

theorem cueball_explicit_list_ignores_balls_witness:
  "cueable (demo_constraints (Some [''9'', ''cue''])) = Some (''9'' # [''cue'']) \<and>
   cueball (demo_constraints (Some [''9'', ''cue''])) [(''8'', ())]
     = cueball (demo_constraints (Some [''9'', ''cue''])) ([] :: (string \<times> unit) list) \<and>
   cueball (demo_constraints (Some [''9'', ''cue''])) ([] :: (string \<times> unit) list) = Inr ''9'' \<and>
   cueable (demo_constraints (Some [])) = Some [] \<and>
   cueball (demo_constraints (Some [])) [(''8'', ())] = Inl IndexError \<and>
   cueable (demo_constraints None) = None \<and>
   cueball (demo_constraints None) ([] :: (string \<times> unit) list) = Inl (AssertionError [])"
proof -
  have h1: "cueable (demo_constraints (Some [''9'', ''cue''])) = Some (''9'' # [''cue''])"
    and h2: "cueable (demo_constraints (Some [])) = Some []"
    and h3: "cueable (demo_constraints None) = None"
    by (simp_all add: demo_constraints_def)
  show ?thesis
    using h1 h2 h3
      cueball_explicit_list_ignores_balls [where self = "demo_constraints (Some [''9'', ''cue''])"
         and cs = "[''9'', ''cue'']" and bls = "[(''8'', ())]"]
      cueball_explicit_list_ignores_balls [where self = "demo_constraints (Some [''9'', ''cue''])"
         and cs = "[''cue'']" and c = "''9''" and bls = "[(''8'', ())]"]
      cueball_explicit_list_ignores_balls [where self = "demo_constraints (Some [])"
         and cs = "[]" and bls = "[(''8'', ())]"]
      cueball_explicit_list_ignores_balls [where self = "demo_constraints None"
         and bls = "[(''8'', ())]"]
    by auto
qed

text \<open>
  Claim C3. When the current shot info reports the game over, \<open>advance\<close> returns with the
  shot untouched and exactly one more log entry, of sentiment ``good'', reading
  ``Game over! <winner> wins!'' for a winner and ``Game over! Tie game!'' without one;
  the turn number, the shot number, the active index and the shot constraints are unchanged.
\<close>

theorem advance_game_over:
  assumes "shot_info self = Some si" and "game_over si"
  shows "\<exists>self' entry.
           advance sub timer self shot = Inr (self', shot) \<and>
           msgs (log self') = msgs (log self) @ [entry] \<and>
           msg entry = (case winner si of
                          Some w \<Rightarrow> ''Game over! '' @ name w @ '' wins!''
                        | None \<Rightarrow> ''Game over! Tie game!'') \<and>
           sentiment entry = ''good'' \<and>
           turn_number self' = turn_number self \<and>
           shot_number self' = shot_number self \<and>
           active_idx self' = active_idx self \<and>
           shot_constraints self' = shot_constraints self"
proof (cases "winner si")
  case None
  with assms show ?thesis
    by (simp add: advance_def add_msg_def)
next
  case (Some w)
  with assms show ?thesis
    by (simp add: advance_def add_msg_def)
qed

theorem advance_game_over_witness:
  "shot_info (demo_ruleset [] (Some (demo_info True True (Some \<lparr>name = ''Ann''\<rparr>))))
     = Some (demo_info True True (Some \<lparr>name = ''Ann''\<rparr>)) \<and>
   game_over (demo_info True True (Some \<lparr>name = ''Ann''\<rparr>)) \<and>
   (\<exists>self' entry.
      advance demo_methods demo_timer
        (demo_ruleset [] (Some (demo_info True True (Some \<lparr>name = ''Ann''\<rparr>)))) demo_shot
        = Inr (self', demo_shot) \<and>
      msgs (log self') = [entry] \<and>
      msg entry = ''Game over! Ann wins!'' \<and>
      sentiment entry = ''good'' \<and>
      turn_number self' = 0 \<and> shot_number self' = 0 \<and> active_idx self' = 0 \<and>
      shot_constraints self' = demo_constraints None)"
proof -
  have h1: "shot_info (demo_ruleset [] (Some (demo_info True True (Some \<lparr>name = ''Ann''\<rparr>))))
     = Some (demo_info True True (Some \<lparr>name = ''Ann''\<rparr>))"
    by (simp add: demo_ruleset_def)
  have h2: "game_over (demo_info True True (Some \<lparr>name = ''Ann''\<rparr>))"
    by (simp add: demo_info_def)
  show ?thesis
    using advance_game_over [OF h1 h2, of demo_methods demo_timer demo_shot] h1 h2
    by (simp add: demo_ruleset_def demo_info_def Log_init_def)
qed


















subsection \<open>Event factory\<close>

text \<open>
  Claim C9. Every constructor of the factory returns an event of its own kind, at the
  time it is given; the null event and the four transitions have one agent, the five
  collisions two, wrapped in the order stick before ball and ball before cushion or
  pocket.
\<close>

theorem factory_events:
  "event_type (null_event f tm si) = NONE \<and> time (null_event f tm si) = tm \<and>
     agents (null_event f tm si) = [f NullObject si] \<and>
   event_type (spinning_stationary_transition f b tm si) = SPINNING_STATIONARY \<and>
     time (spinning_stationary_transition f b tm si) = tm \<and>
     agents (spinning_stationary_transition f b tm si) = [f (BallRef b) si] \<and>
   event_type (rolling_stationary_transition f b tm si) = ROLLING_STATIONARY \<and>
     time (rolling_stationary_transition f b tm si) = tm \<and>
     agents (rolling_stationary_transition f b tm si) = [f (BallRef b) si] \<and>
   event_type (rolling_spinning_transition f b tm si) = ROLLING_SPINNING \<and>
     time (rolling_spinning_transition f b tm si) = tm \<and>
     agents (rolling_spinning_transition f b tm si) = [f (BallRef b) si] \<and>
   event_type (sliding_rolling_transition f b tm si) = SLIDING_ROLLING \<and>
     time (sliding_rolling_transition f b tm si) = tm \<and>
     agents (sliding_rolling_transition f b tm si) = [f (BallRef b) si] \<and>
   event_type (ball_ball_collision f b b2 tm si) = BALL_BALL \<and>
     time (ball_ball_collision f b b2 tm si) = tm \<and>
     agents (ball_ball_collision f b b2 tm si) = [f (BallRef b) si, f (BallRef b2) si] \<and>
   event_type (ball_linear_cushion_collision f b cu tm si) = BALL_LINEAR_CUSHION \<and>
     time (ball_linear_cushion_collision f b cu tm si) = tm \<and>
     agents (ball_linear_cushion_collision f b cu tm si)
       = [f (BallRef b) si, f (LinearCushionRef cu) si] \<and>
   event_type (ball_circular_cushion_collision f b cu tm si) = BALL_CIRCULAR_CUSHION \<and>
     time (ball_circular_cushion_collision f b cu tm si) = tm \<and>
     agents (ball_circular_cushion_collision f b cu tm si)
       = [f (BallRef b) si, f (CircularCushionRef cu) si] \<and>
   event_type (ball_pocket_collision f b p tm si) = BALL_POCKET \<and>
     time (ball_pocket_collision f b p tm si) = tm \<and>
     agents (ball_pocket_collision f b p tm si) = [f (BallRef b) si, f (PocketRef p) si] \<and>
   event_type (stick_ball_collision f st b tm si) = STICK_BALL \<and>
     time (stick_ball_collision f st b tm si) = tm \<and>
     agents (stick_ball_collision f st b tm si) = [f (CueRef st) si, f (BallRef b) si]"
  by (simp add: null_event_def spinning_stationary_transition_def
      rolling_stationary_transition_def rolling_spinning_transition_def
      sliding_rolling_transition_def ball_ball_collision_def
      ball_linear_cushion_collision_def ball_circular_cushion_collision_def
      ball_pocket_collision_def stick_ball_collision_def)

subsection \<open>Shot evolution engine\<close>

text \<open>Facts about the order of times.\<close>

lemma etime_le_PInf [simp]: "(x::etime) \<le> PInf"
  by (cases x) simp_all

lemma etime_not_PInf_less [simp]: "\<not> PInf < (x::etime)"
  by (cases x) simp_all

lemma etime_PInf_le [simp]: "PInf \<le> (x::etime) \<longleftrightarrow> x = PInf"
  by (cases x) simp_all

lemma etime_less_PInf: "(x::etime) < PInf \<longleftrightarrow> x \<noteq> PInf"
  by (cases x) simp_all

text \<open>
  A running minimum with a strict comparison keeps the first candidate of least key; the
  transition source compares with \<open>\<le>\<close> and keeps the last event of least time.
\<close>

lemma strict_min_above:
  fixes K :: "'x \<Rightarrow> etime"
  assumes g: "\<And>acc x. g acc x = (if K x < fst acc then (K x, V x) else acc)"
  shows "m < fst acc \<Longrightarrow> \<forall>x\<in>set xs. m < K x \<Longrightarrow> m < fst (foldl g acc xs)"
  by (induction xs arbitrary: acc) (simp_all add: g)

lemma strict_min_keeps:
  fixes K :: "'x \<Rightarrow> etime"
  assumes g: "\<And>acc x. g acc x = (if K x < fst acc then (K x, V x) else acc)"
  shows "\<forall>x\<in>set xs. fst acc \<le> K x \<Longrightarrow> foldl g acc xs = acc"
  by (induction xs arbitrary: acc) (auto simp: g)

lemma strict_min_first:
  fixes K :: "'x \<Rightarrow> etime"
  assumes g: "\<And>acc x. g acc x = (if K x < fst acc then (K x, V x) else acc)"
    and "K p < fst acc"
    and "\<forall>x\<in>set pre. K p < K x"
    and "\<forall>x\<in>set post. K p \<le> K x"
  shows "foldl g acc (pre @ p # post) = (K p, V p)"
proof -
  have "K p < fst (foldl g acc pre)"
    using assms(2,3) by (rule strict_min_above [OF g])
  then have "g (foldl g acc pre) p = (K p, V p)"
    by (simp add: g)
  moreover have "foldl g (K p, V p) post = (K p, V p)"
    using assms(4) by (intro strict_min_keeps [OF g]) simp
  ultimately show ?thesis
    by simp
qed

lemma transition_below:
  "m \<le> time acc \<Longrightarrow> \<forall>x\<in>set xs. m \<le> time (next_transition_event (snd x)) \<Longrightarrow>
   m \<le> time (foldl transition_step acc xs)"
  by (induction xs arbitrary: acc) (simp_all add: transition_step_def)

lemma transition_keeps:
  "\<forall>x\<in>set xs. time acc < time (next_transition_event (snd x)) \<Longrightarrow>
   foldl transition_step acc xs = acc"
  by (induction xs arbitrary: acc) (auto simp: transition_step_def)

lemma transition_last:
  assumes "time (next_transition_event (snd p)) \<le> time acc"
    and "\<forall>x\<in>set pre. time (next_transition_event (snd p)) \<le> time (next_transition_event (snd x))"
    and "\<forall>x\<in>set post. time (next_transition_event (snd p)) < time (next_transition_event (snd x))"
  shows "foldl transition_step acc (pre @ p # post) = next_transition_event (snd p)"
proof -
  have "time (next_transition_event (snd p)) \<le> time (foldl transition_step acc pre)"
    using assms(1,2) by (rule transition_below)
  then have "transition_step (foldl transition_step acc pre) p = next_transition_event (snd p)"
    by (simp add: transition_step_def)
  moreover have "foldl transition_step (next_transition_event (snd p)) post
                   = next_transition_event (snd p)"
    using assms(3) by (rule transition_keeps)
  ultimately show ?thesis
    by simp
qed

lemma transition_source_last_min:
  assumes k: "k < length (balls self)"
    and least: "\<forall>k'<length (balls self).
                  time (next_transition_event (snd (balls self ! k)))
                    \<le> time (next_transition_event (snd (balls self ! k')))"
    and last: "\<forall>k'<length (balls self). k < k' \<longrightarrow>
                  time (next_transition_event (snd (balls self ! k')))
                    \<noteq> time (next_transition_event (snd (balls self ! k)))"
  shows "get_min_transition_event_time self = next_transition_event (snd (balls self ! k))"
proof -
  let ?bs = "balls self"
  let ?E = "\<lambda>x. time (next_transition_event (snd x))"
  have split: "?bs = take k ?bs @ ?bs ! k # drop (Suc k) ?bs"
    using k by (rule id_take_nth_drop)
  have pre: "\<forall>x\<in>set (take k ?bs). ?E (?bs ! k) \<le> ?E x"
  proof
    fix x assume "x \<in> set (take k ?bs)"
    then obtain k' where "k' < length ?bs" "x = ?bs ! k'"
      by (metis in_set_conv_nth in_set_takeD)
    with least show "?E (?bs ! k) \<le> ?E x" by simp
  qed
  have post: "\<forall>x\<in>set (drop (Suc k) ?bs). ?E (?bs ! k) < ?E x"
  proof
    fix x assume "x \<in> set (drop (Suc k) ?bs)"
    then obtain n where n: "n < length ?bs - Suc k" "x = ?bs ! (Suc k + n)"
      by (auto simp: in_set_conv_nth)
    then have "Suc k + n < length ?bs" "k < Suc k + n" by simp_all
    with least last n show "?E (?bs ! k) < ?E x"
      by (metis le_neq_trans)
  qed
  have "foldl transition_step (NonEvent PInf) (take k ?bs @ ?bs ! k # drop (Suc k) ?bs)
          = next_transition_event (snd (?bs ! k))"
    using _ pre post by (rule transition_last) (simp add: NonEvent_def)
  with split show ?thesis
    by (simp add: get_min_transition_event_time_def)
qed

text \<open>The events of the first example system, by evaluation.\<close>

lemma demo_length: "length (balls demo_evolve) = Suc (Suc (Suc (Suc 0)))"
  by (simp add: demo_evolve_def)

lemma demo_transition_times:
  "time (next_transition_event (snd (balls demo_evolve ! 0))) = Fin 2"
  "time (next_transition_event (snd (balls demo_evolve ! Suc 0))) = Fin 2"
  "time (next_transition_event (snd (balls demo_evolve ! Suc (Suc 0)))) = PInf"
  "time (next_transition_event (snd (balls demo_evolve ! Suc (Suc (Suc 0))))) = PInf"
  by (simp_all add: demo_evolve_def demo_ball_def NonEvent_def)

lemma demo_rail_event:
  "get_min_ball_rail_event_time demo_physics demo_evolve
     = \<lparr>event_type = BALL_LINEAR_CUSHION, agents = [BallOf ''cue'', RailOf ''L''], time = Fin (299/50)\<rparr>"
  by (simp add: get_min_ball_rail_event_time_def ball_rail_step_def demo_physics_def
      demo_evolve_def demo_ball_def BallCushionCollision_def)

lemma demo_ball_ball_event:
  "get_min_ball_ball_event_time demo_physics demo_evolve
     = \<lparr>event_type = BALL_BALL, agents = [BallOf ''1'', BallOf ''2''], time = Fin 2\<rparr>"
  by (simp add: get_min_ball_ball_event_time_def ball_ball_step_def demo_physics_def
      demo_evolve_def demo_ball_def BallBallCollision_def)

text \<open>
  Claim C1. The event returned by \<open>get_next_event\<close> is at a time no later than any of
  the three candidates (transition, ball-ball, ball-rail). It is the first of the three, in
  that order, whose time is the least and finite: a later source replaces an earlier one
  only with a strictly smaller time. It is the sentinel of kind NONE at time
  \<open>+infinity\<close> exactly when all three candidates have an infinite time. The transition
  candidate itself is the sentinel when there is no ball, and otherwise the next
  transition event of the last ball, in iteration order, among those of least time.
\<close>

theorem next_event_selection:
  "time (get_next_event ph self) \<le> time (get_min_transition_event_time self) \<and>
   time (get_next_event ph self) \<le> time (get_min_ball_ball_event_time ph self) \<and>
   time (get_next_event ph self) \<le> time (get_min_ball_rail_event_time ph self) \<and>
   get_next_event ph self =
     (if time (get_min_transition_event_time self) < PInf
         \<and> time (get_min_transition_event_time self) \<le> time (get_min_ball_ball_event_time ph self)
         \<and> time (get_min_transition_event_time self) \<le> time (get_min_ball_rail_event_time ph self)
      then get_min_transition_event_time self
      else if time (get_min_ball_ball_event_time ph self) < time (get_min_transition_event_time self)
         \<and> time (get_min_ball_ball_event_time ph self) \<le> time (get_min_ball_rail_event_time ph self)
      then get_min_ball_ball_event_time ph self
      else if time (get_min_ball_rail_event_time ph self) < time (get_min_transition_event_time self)
         \<and> time (get_min_ball_rail_event_time ph self) < time (get_min_ball_ball_event_time ph self)
      then get_min_ball_rail_event_time ph self
      else NonEvent PInf) \<and>
   ((event_type (get_next_event ph self) = NONE \<and> time (get_next_event ph self) = PInf)
      = (time (get_min_transition_event_time self) = PInf
         \<and> time (get_min_ball_ball_event_time ph self) = PInf
         \<and> time (get_min_ball_rail_event_time ph self) = PInf)) \<and>
   ((get_next_event ph self = NonEvent PInf)
      = (time (get_min_transition_event_time self) = PInf
         \<and> time (get_min_ball_ball_event_time ph self) = PInf
         \<and> time (get_min_ball_rail_event_time ph self) = PInf)) \<and>
   (balls self = [] \<longrightarrow> get_min_transition_event_time self = NonEvent PInf) \<and>
   (k < length (balls self)
      \<and> (\<forall>k'<length (balls self).
            time (next_transition_event (snd (balls self ! k)))
              \<le> time (next_transition_event (snd (balls self ! k'))))
      \<and> (\<forall>k'<length (balls self). k < k' \<longrightarrow>
            time (next_transition_event (snd (balls self ! k')))
              \<noteq> time (next_transition_event (snd (balls self ! k))))
      \<longrightarrow> get_min_transition_event_time self = next_transition_event (snd (balls self ! k)))"
proof -
  define tr where "tr = get_min_transition_event_time self"
  define bb where "bb = get_min_ball_ball_event_time ph self"
  define br where "br = get_min_ball_rail_event_time ph self"
  define e1 where "e1 = (if time tr < PInf then tr else NonEvent PInf)"
  define e2 where "e2 = (if time bb < time e1 then bb else e1)"
  define e3 where "e3 = (if time br < time e2 then br else e2)"
  have e: "get_next_event ph self = e3"
    by (simp add: get_next_event_def Let_def NonEvent_def e3_def e2_def e1_def tr_def bb_def br_def)
  have t1: "time e1 = time tr"
    by (simp add: e1_def NonEvent_def etime_less_PInf)
  have t2: "time e2 = min (time tr) (time bb)"
    by (auto simp: e2_def t1 min_def)
  have t3: "time e3 = min (min (time tr) (time bb)) (time br)"
    by (auto simp: e3_def t2 min_def)
  have le: "time e3 \<le> time tr" "time e3 \<le> time bb" "time e3 \<le> time br"
    by (simp_all add: t3 min.coboundedI1)
  have choice: "e3 = (if time tr < PInf \<and> time tr \<le> time bb \<and> time tr \<le> time br then tr
                      else if time bb < time tr \<and> time bb \<le> time br then bb
                      else if time br < time tr \<and> time br < time bb then br
                      else NonEvent PInf)"
    by (auto simp: e3_def e2_def e1_def NonEvent_def etime_less_PInf)
  have inf: "(time e3 = PInf) = (time tr = PInf \<and> time bb = PInf \<and> time br = PInf)"
    by (auto simp: t3 min_def etime_less_PInf split: if_splits)
  have sentinel: "time tr = PInf \<and> time bb = PInf \<and> time br = PInf \<Longrightarrow> e3 = NonEvent PInf"
    by (simp add: choice)
  have s1: "(event_type e3 = NONE \<and> time e3 = PInf)
              = (time tr = PInf \<and> time bb = PInf \<and> time br = PInf)"
    using inf sentinel by (auto simp: NonEvent_def)
  have s2: "(e3 = NonEvent PInf) = (time tr = PInf \<and> time bb = PInf \<and> time br = PInf)"
    using inf sentinel by (auto simp: NonEvent_def)
  have empty: "balls self = [] \<longrightarrow> tr = NonEvent PInf"
    by (simp add: tr_def get_min_transition_event_time_def)
  have tie: "k < length (balls self)
      \<and> (\<forall>k'<length (balls self).
            time (next_transition_event (snd (balls self ! k)))
              \<le> time (next_transition_event (snd (balls self ! k'))))
      \<and> (\<forall>k'<length (balls self). k < k' \<longrightarrow>
            time (next_transition_event (snd (balls self ! k')))
              \<noteq> time (next_transition_event (snd (balls self ! k))))
      \<longrightarrow> tr = next_transition_event (snd (balls self ! k))"
    unfolding tr_def using transition_source_last_min [of k self] by blast
  from le choice s1 s2 empty tie show ?thesis
    unfolding e tr_def bb_def br_def by blast
qed

theorem next_event_selection_witness:
  "(1::nat) < length (balls demo_evolve)
   \<and> time (next_transition_event (snd (balls demo_evolve ! 0))) = Fin 2
   \<and> time (next_transition_event (snd (balls demo_evolve ! 1))) = Fin 2
   \<and> time (next_transition_event (snd (balls demo_evolve ! 2))) = PInf
   \<and> time (next_transition_event (snd (balls demo_evolve ! 3))) = PInf
   \<and> get_min_transition_event_time demo_evolve
       = \<lparr>event_type = SPINNING_STATIONARY, agents = [BallOf ''1''], time = Fin 2\<rparr>
   \<and> time (get_min_ball_ball_event_time demo_physics demo_evolve) = Fin 2
   \<and> time (get_min_ball_rail_event_time demo_physics demo_evolve) = Fin (299/50)
   \<and> get_next_event demo_physics demo_evolve
       = \<lparr>event_type = SPINNING_STATIONARY, agents = [BallOf ''1''], time = Fin 2\<rparr>
   \<and> balls demo_evolve0 = []
   \<and> get_min_transition_event_time demo_evolve0 = NonEvent PInf"
proof -
  have n1: "(1::nat) = Suc 0" by simp
  have h1: "(1::nat) < length (balls demo_evolve)"
    by (simp add: demo_length)
  have h2: "\<forall>k'<length (balls demo_evolve).
         time (next_transition_event (snd (balls demo_evolve ! 1)))
           \<le> time (next_transition_event (snd (balls demo_evolve ! k')))"
    unfolding n1 demo_length by (simp add: All_less_Suc demo_transition_times)
  have h3: "\<forall>k'<length (balls demo_evolve). 1 < k' \<longrightarrow>
         time (next_transition_event (snd (balls demo_evolve ! k')))
           \<noteq> time (next_transition_event (snd (balls demo_evolve ! 1)))"
    unfolding n1 demo_length by (simp add: All_less_Suc demo_transition_times)
  have h4: "balls demo_evolve0 = []"
    by (simp add: demo_evolve0_def)
  have ev: "next_transition_event (snd (balls demo_evolve ! 1))
              = \<lparr>event_type = SPINNING_STATIONARY, agents = [BallOf ''1''], time = Fin 2\<rparr>"
    unfolding n1 by (simp add: demo_evolve_def demo_ball_def)
  note t = next_event_selection [of demo_physics demo_evolve 1]
  from t h1 h2 h3
  have tr: "get_min_transition_event_time demo_evolve
              = \<lparr>event_type = SPINNING_STATIONARY, agents = [BallOf ''1''], time = Fin 2\<rparr>"
    unfolding ev by blast
  from t have "get_next_event demo_physics demo_evolve =
     (if time (get_min_transition_event_time demo_evolve) < PInf
         \<and> time (get_min_transition_event_time demo_evolve) \<le> time (get_min_ball_ball_event_time demo_physics demo_evolve)
         \<and> time (get_min_transition_event_time demo_evolve) \<le> time (get_min_ball_rail_event_time demo_physics demo_evolve)
      then get_min_transition_event_time demo_evolve
      else if time (get_min_ball_ball_event_time demo_physics demo_evolve) < time (get_min_transition_event_time demo_evolve)
         \<and> time (get_min_ball_ball_event_time demo_physics demo_evolve) \<le> time (get_min_ball_rail_event_time demo_physics demo_evolve)
      then get_min_ball_ball_event_time demo_physics demo_evolve
      else if time (get_min_ball_rail_event_time demo_physics demo_evolve) < time (get_min_transition_event_time demo_evolve)
         \<and> time (get_min_ball_rail_event_time demo_physics demo_evolve) < time (get_min_ball_ball_event_time demo_physics demo_evolve)
      then get_min_ball_rail_event_time demo_physics demo_evolve
      else NonEvent PInf)"
    by blast
  then have nx: "get_next_event demo_physics demo_evolve
       = \<lparr>event_type = SPINNING_STATIONARY, agents = [BallOf ''1''], time = Fin 2\<rparr>"
    by (simp add: tr demo_ball_ball_event demo_rail_event)
  from next_event_selection [of demo_physics demo_evolve0 0] h4
  have em: "get_min_transition_event_time demo_evolve0 = NonEvent PInf"
    by blast
  have n23: "(2::nat) = Suc (Suc 0)" "(3::nat) = Suc (Suc (Suc 0))" by simp_all
  have times: "time (next_transition_event (snd (balls demo_evolve ! 0))) = Fin 2"
    "time (next_transition_event (snd (balls demo_evolve ! 1))) = Fin 2"
    "time (next_transition_event (snd (balls demo_evolve ! 2))) = PInf"
    "time (next_transition_event (snd (balls demo_evolve ! 3))) = PInf"
    unfolding n1 n23 by (rule demo_transition_times)+
  from h1 h4 times tr nx em show ?thesis
    by (simp add: demo_ball_ball_event demo_rail_event)
qed

text \<open>
  The two loops of the ball-ball source are one pass over all the pairs of enumerated
  balls, which skips the pairs that are not kept; a pair \<open>(i, j)\<close> splits that pass
  into the pairs before it and the pairs after it.
\<close>

lemma nested_foldl_product:
  "foldl (\<lambda>acc x. foldl (f x) acc ys) a xs
     = foldl (\<lambda>acc p. f (fst p) acc (snd p)) a (List.product xs ys)"
  by (induction xs arbitrary: a) (simp_all add: foldl_map)

lemma foldl_skip_filter:
  "foldl (\<lambda>acc x. if P x then g acc x else acc) a xs = foldl g a (filter P xs)"
  by (induction xs arbitrary: a) simp_all

lemma product_append_left:
  "List.product (xs @ xs') ys = List.product xs ys @ List.product xs' ys"
  by (induction xs) simp_all

lemma enumerate_split:
  "i < length xs \<Longrightarrow>
   enumerate 0 xs = take i (enumerate 0 xs) @ (i, xs ! i) # drop (Suc i) (enumerate 0 xs)"
  using id_take_nth_drop [of i "enumerate 0 xs"] by (simp add: nth_enumerate_eq)

lemma in_enumerate: "x \<in> set (enumerate 0 xs) \<Longrightarrow> fst x < length xs \<and> snd x = xs ! fst x"
  by (auto simp: in_set_enumerate_eq)

lemma in_take_enumerate:
  "x \<in> set (take i (enumerate 0 xs)) \<Longrightarrow> fst x < i \<and> fst x < length xs \<and> snd x = xs ! fst x"
  by (auto simp: in_set_conv_nth nth_enumerate_eq)

lemma ball_ball_step_eq:
  "ball_ball_step ph (fst p) acc (snd p) = (if pair_kept p then pair_min ph acc p else acc)"
  by (cases p; cases acc)
     (auto simp: ball_ball_step_def pair_kept_def pair_min_def pair_key_def pair_val_def
                 pair_collision_time_def friction_def in_motion_pair_def Let_def
           split: motion_state.splits)

lemma ball_ball_loops:
  "foldl (\<lambda>acc e1. foldl (ball_ball_step ph e1) acc ys) a xs
     = foldl (pair_min ph) a (filter pair_kept (List.product xs ys))"
  by (simp add: nested_foldl_product ball_ball_step_eq foldl_skip_filter)

lemma product_split_row:
  "List.product (xs1 @ x # xs2) ys
     = List.product xs1 ys @ map (Pair x) ys @ List.product xs2 ys"
  by (simp add: product_append_left)

lemma ball_ball_none:
  assumes "\<forall>i j. i < j \<and> j < length bs \<and> in_motion_pair (snd (bs ! i)) (snd (bs ! j))
             \<longrightarrow> pair_collision_time ph (snd (bs ! i)) (snd (bs ! j)) = PInf"
  shows "foldl (pair_min ph) (PInf, d) (filter pair_kept (List.product (enumerate 0 bs) (enumerate 0 bs)))
           = (PInf, d)"
proof (rule strict_min_keeps [where K = "pair_key ph" and V = pair_val])
  show "\<And>acc x. pair_min ph acc x = (if pair_key ph x < fst acc then (pair_key ph x, pair_val x) else acc)"
    by (simp add: pair_min_def)
  show "\<forall>x\<in>set (filter pair_kept (List.product (enumerate 0 bs) (enumerate 0 bs))).
          fst (PInf, d) \<le> pair_key ph x"
  proof
    fix x assume "x \<in> set (filter pair_kept (List.product (enumerate 0 bs) (enumerate 0 bs)))"
    then have kept: "pair_kept x" and a: "fst x \<in> set (enumerate 0 bs)" and b: "snd x \<in> set (enumerate 0 bs)"
      by (auto simp: mem_Times_iff)
    from in_enumerate [OF a] in_enumerate [OF b] kept assms
    have "pair_key ph x = PInf"
      by (simp add: pair_kept_def pair_key_def)
    then show "fst (PInf, d) \<le> pair_key ph x" by simp
  qed
qed

lemma ball_ball_first:
  assumes ij: "i < j" "j < length bs"
    and moving: "in_motion_pair (snd (bs ! i)) (snd (bs ! j))"
    and finite: "pair_collision_time ph (snd (bs ! i)) (snd (bs ! j)) < PInf"
    and least: "\<forall>i' j'. i' < j' \<and> j' < length bs \<and> in_motion_pair (snd (bs ! i')) (snd (bs ! j'))
                  \<longrightarrow> pair_collision_time ph (snd (bs ! i)) (snd (bs ! j))
                        \<le> pair_collision_time ph (snd (bs ! i')) (snd (bs ! j'))"
    and first: "\<forall>i' j'. i' < j' \<and> j' < length bs \<and> in_motion_pair (snd (bs ! i')) (snd (bs ! j'))
                  \<and> (i' < i \<or> i' = i \<and> j' < j)
                  \<longrightarrow> pair_collision_time ph (snd (bs ! i')) (snd (bs ! j'))
                        \<noteq> pair_collision_time ph (snd (bs ! i)) (snd (bs ! j))"
  shows "foldl (pair_min ph) (PInf, d) (filter pair_kept (List.product (enumerate 0 bs) (enumerate 0 bs)))
           = (pair_collision_time ph (snd (bs ! i)) (snd (bs ! j)),
              (BallOf (fst (bs ! i)), BallOf (fst (bs ! j))))"
proof -
  let ?en = "enumerate 0 bs"
  let ?p = "((i, bs ! i), (j, bs ! j))"
  let ?pre = "List.product (take i ?en) ?en @ map (Pair (i, bs ! i)) (take j ?en)"
  let ?post = "map (Pair (i, bs ! i)) (drop (Suc j) ?en) @ List.product (drop (Suc i) ?en) ?en"
  from ij have i: "i < length bs" by simp
  have row: "map (Pair (i, bs ! i)) ?en
               = map (Pair (i, bs ! i)) (take j ?en) @ ?p # map (Pair (i, bs ! i)) (drop (Suc j) ?en)"
  proof -
    have "map (Pair (i, bs ! i)) ?en
            = map (Pair (i, bs ! i)) (take j ?en @ (j, bs ! j) # drop (Suc j) ?en)"
      by (rule arg_cong [where f = "map (Pair (i, bs ! i))", OF enumerate_split [OF ij(2)]])
    then show ?thesis
      by (simp only: map_append list.map)
  qed
  have "List.product ?en ?en
          = List.product (take i ?en @ (i, bs ! i) # drop (Suc i) ?en) ?en"
    by (rule arg_cong [where f = "\<lambda>z. List.product z ?en", OF enumerate_split [OF i]])
  also have "\<dots> = List.product (take i ?en) ?en @ map (Pair (i, bs ! i)) ?en
                     @ List.product (drop (Suc i) ?en) ?en"
    by (rule product_split_row)
  finally have prod: "List.product ?en ?en = ?pre @ ?p # ?post"
    by (simp only: row append_assoc append_Cons)
  have kept: "pair_kept ?p"
    using ij moving by (simp add: pair_kept_def)
  have key: "pair_key ph ?p = pair_collision_time ph (snd (bs ! i)) (snd (bs ! j))"
    by (simp add: pair_key_def)
  have val: "pair_val ?p = (BallOf (fst (bs ! i)), BallOf (fst (bs ! j)))"
    by (simp add: pair_val_def)
  have any: "pair_key ph ?p \<le> pair_key ph x"
    if "pair_kept x" "fst x \<in> set ?en" "snd x \<in> set ?en" for x
    using that in_enumerate [of "fst x" bs] in_enumerate [of "snd x" bs] least
    by (simp add: pair_kept_def pair_key_def)
  have before: "pair_key ph x \<noteq> pair_key ph ?p"
    if "pair_kept x" "fst x \<in> set ?en" "snd x \<in> set ?en"
       "fst (fst x) < i \<or> fst (fst x) = i \<and> fst (snd x) < j" for x
    using that in_enumerate [of "fst x" bs] in_enumerate [of "snd x" bs] first
    by (simp add: pair_kept_def pair_key_def)
  have pre: "\<forall>x\<in>set (filter pair_kept ?pre). pair_key ph ?p < pair_key ph x"
  proof
    fix x assume x: "x \<in> set (filter pair_kept ?pre)"
    then have k: "pair_kept x" by auto
    from x have "x \<in> set (List.product (take i ?en) ?en) \<or> x \<in> Pair (i, bs ! i) ` set (take j ?en)"
      by auto
    then have mem: "fst x \<in> set ?en \<and> snd x \<in> set ?en
                    \<and> (fst (fst x) < i \<or> fst (fst x) = i \<and> fst (snd x) < j)"
    proof
      assume "x \<in> set (List.product (take i ?en) ?en)"
      then have "fst x \<in> set (take i ?en)" "snd x \<in> set ?en"
        by (auto simp: mem_Times_iff)
      then show ?thesis
        using in_take_enumerate [of "fst x" i bs] by (auto dest: in_set_takeD)
    next
      assume "x \<in> Pair (i, bs ! i) ` set (take j ?en)"
      then obtain y where y: "y \<in> set (take j ?en)" "x = ((i, bs ! i), y)"
        by auto
      then show ?thesis
        using in_take_enumerate [of y j bs] i
        by (auto simp: in_set_enumerate_eq dest: in_set_takeD)
    qed
    with k any [of x] before [of x] show "pair_key ph ?p < pair_key ph x"
      by (simp add: less_le)
  qed
  have post: "\<forall>x\<in>set (filter pair_kept ?post). pair_key ph ?p \<le> pair_key ph x"
  proof
    fix x assume x: "x \<in> set (filter pair_kept ?post)"
    then have k: "pair_kept x" by auto
    from x have "x \<in> Pair (i, bs ! i) ` set (drop (Suc j) ?en)
                 \<or> x \<in> set (List.product (drop (Suc i) ?en) ?en)"
      by auto
    then have "fst x \<in> set ?en \<and> snd x \<in> set ?en"
    proof
      assume "x \<in> Pair (i, bs ! i) ` set (drop (Suc j) ?en)"
      then obtain y where y: "y \<in> set (drop (Suc j) ?en)" "x = ((i, bs ! i), y)"
        by auto
      then show ?thesis
        using i by (auto simp: in_set_enumerate_eq dest: in_set_dropD)
    next
      assume "x \<in> set (List.product (drop (Suc i) ?en) ?en)"
      then show ?thesis
        by (auto simp: mem_Times_iff dest: in_set_dropD)
    qed
    with k any [of x] show "pair_key ph ?p \<le> pair_key ph x"
      by simp
  qed
  have "foldl (pair_min ph) (PInf, d) (filter pair_kept ?pre @ ?p # filter pair_kept ?post)
          = (pair_key ph ?p, pair_val ?p)"
  proof (rule strict_min_first [where K = "pair_key ph" and V = pair_val])
    show "\<And>acc x. pair_min ph acc x = (if pair_key ph x < fst acc then (pair_key ph x, pair_val x) else acc)"
      by (simp add: pair_min_def)
    show "pair_key ph ?p < fst (PInf, d)"
      using finite by (simp add: key)
  qed (rule pre, rule post)
  moreover have "filter pair_kept (List.product ?en ?en)
                   = filter pair_kept ?pre @ ?p # filter pair_kept ?post"
    using kept by (simp only: prod filter_append filter.simps if_True)
  ultimately show ?thesis
    by (simp only: key val)
qed

lemma demo_pair_times:
  "pair_collision_time demo_physics (snd (balls demo_evolve ! 0)) (snd (balls demo_evolve ! Suc 0)) = Fin (21/100)"
  "pair_collision_time demo_physics (snd (balls demo_evolve ! 0)) (snd (balls demo_evolve ! Suc (Suc 0))) = Fin (21/100)"
  "pair_collision_time demo_physics (snd (balls demo_evolve ! 0)) (snd (balls demo_evolve ! Suc (Suc (Suc 0)))) = Fin (21/100)"
  "pair_collision_time demo_physics (snd (balls demo_evolve ! Suc 0)) (snd (balls demo_evolve ! Suc (Suc 0))) = Fin (1/50)"
  "pair_collision_time demo_physics (snd (balls demo_evolve ! Suc 0)) (snd (balls demo_evolve ! Suc (Suc (Suc 0)))) = Fin (1/50)"
  "pair_collision_time demo_physics (snd (balls demo_evolve ! Suc (Suc 0))) (snd (balls demo_evolve ! Suc (Suc (Suc 0)))) = Fin 0"
  by (simp_all add: pair_collision_time_def friction_def demo_physics_def demo_evolve_def demo_ball_def)

lemma demo_in_motion:
  "in_motion_pair (snd (balls demo_evolve ! Suc 0)) (snd (balls demo_evolve ! Suc (Suc 0)))"
  "\<not> in_motion_pair (snd (balls demo_evolve ! Suc (Suc 0))) (snd (balls demo_evolve ! Suc (Suc (Suc 0))))"
  by (simp_all add: in_motion_pair_def demo_evolve_def demo_ball_def)

text \<open>
  Claim C2. The result of \<open>get_min_ball_ball_event_time\<close> is a BALL_BALL event. Among
  the pairs of balls at positions \<open>i < j\<close> of which at least one is not stationary, and
  only among them, it holds the pair whose collision time is the least, and of the pairs
  with that time the first in the order of the loops, at the current time plus that
  collision time; each ball's friction argument is its sliding coefficient if it slides
  and its rolling coefficient otherwise. When no such pair has a finite collision time,
  it holds the two placeholder balls at the current time plus \<open>+infinity\<close>.
\<close>

theorem ball_ball_source:
  "event_type (get_min_ball_ball_event_time ph self) = BALL_BALL \<and>
   ((\<forall>i j. i < j \<and> j < length (balls self)
             \<and> in_motion_pair (snd (balls self ! i)) (snd (balls self ! j))
           \<longrightarrow> pair_collision_time ph (snd (balls self ! i)) (snd (balls self ! j)) = PInf)
      \<longrightarrow> agents (get_min_ball_ball_event_time ph self) = [DummyBall, DummyBall]
          \<and> time (get_min_ball_ball_event_time ph self) = cur_t self + PInf) \<and>
   (i < j \<and> j < length (balls self)
      \<and> in_motion_pair (snd (balls self ! i)) (snd (balls self ! j))
      \<and> pair_collision_time ph (snd (balls self ! i)) (snd (balls self ! j)) < PInf
      \<and> (\<forall>i' j'. i' < j' \<and> j' < length (balls self)
                   \<and> in_motion_pair (snd (balls self ! i')) (snd (balls self ! j'))
             \<longrightarrow> pair_collision_time ph (snd (balls self ! i)) (snd (balls self ! j))
                   \<le> pair_collision_time ph (snd (balls self ! i')) (snd (balls self ! j')))
      \<and> (\<forall>i' j'. i' < j' \<and> j' < length (balls self)
                   \<and> in_motion_pair (snd (balls self ! i')) (snd (balls self ! j'))
                   \<and> (i' < i \<or> i' = i \<and> j' < j)
             \<longrightarrow> pair_collision_time ph (snd (balls self ! i')) (snd (balls self ! j'))
                   \<noteq> pair_collision_time ph (snd (balls self ! i)) (snd (balls self ! j)))
      \<longrightarrow> agents (get_min_ball_ball_event_time ph self)
            = [BallOf (fst (balls self ! i)), BallOf (fst (balls self ! j))]
          \<and> time (get_min_ball_ball_event_time ph self)
            = cur_t self + pair_collision_time ph (snd (balls self ! i)) (snd (balls self ! j)))"
proof (intro conjI impI)
  show "event_type (get_min_ball_ball_event_time ph self) = BALL_BALL"
    by (simp add: get_min_ball_ball_event_time_def BallBallCollision_def split: prod.splits)
next
  assume none: "\<forall>i j. i < j \<and> j < length (balls self)
             \<and> in_motion_pair (snd (balls self ! i)) (snd (balls self ! j))
           \<longrightarrow> pair_collision_time ph (snd (balls self ! i)) (snd (balls self ! j)) = PInf"
  have r: "get_min_ball_ball_event_time ph self
             = BallBallCollision DummyBall DummyBall (cur_t self + PInf)"
    by (simp add: get_min_ball_ball_event_time_def ball_ball_loops ball_ball_none [OF none])
  show "agents (get_min_ball_ball_event_time ph self) = [DummyBall, DummyBall]"
    and "time (get_min_ball_ball_event_time ph self) = cur_t self + PInf"
    by (simp_all add: r BallBallCollision_def)
next
  assume a: "i < j \<and> j < length (balls self)
      \<and> in_motion_pair (snd (balls self ! i)) (snd (balls self ! j))
      \<and> pair_collision_time ph (snd (balls self ! i)) (snd (balls self ! j)) < PInf
      \<and> (\<forall>i' j'. i' < j' \<and> j' < length (balls self)
                   \<and> in_motion_pair (snd (balls self ! i')) (snd (balls self ! j'))
             \<longrightarrow> pair_collision_time ph (snd (balls self ! i)) (snd (balls self ! j))
                   \<le> pair_collision_time ph (snd (balls self ! i')) (snd (balls self ! j')))
      \<and> (\<forall>i' j'. i' < j' \<and> j' < length (balls self)
                   \<and> in_motion_pair (snd (balls self ! i')) (snd (balls self ! j'))
                   \<and> (i' < i \<or> i' = i \<and> j' < j)
             \<longrightarrow> pair_collision_time ph (snd (balls self ! i')) (snd (balls self ! j'))
                   \<noteq> pair_collision_time ph (snd (balls self ! i)) (snd (balls self ! j)))"
  then have "foldl (pair_min ph) (PInf, (DummyBall, DummyBall))
                 (filter pair_kept (List.product (enumerate 0 (balls self)) (enumerate 0 (balls self))))
           = (pair_collision_time ph (snd (balls self ! i)) (snd (balls self ! j)),
              (BallOf (fst (balls self ! i)), BallOf (fst (balls self ! j))))"
    by (intro ball_ball_first) simp_all
  then have r: "get_min_ball_ball_event_time ph self
             = BallBallCollision (BallOf (fst (balls self ! i))) (BallOf (fst (balls self ! j)))
                 (cur_t self + pair_collision_time ph (snd (balls self ! i)) (snd (balls self ! j)))"
    by (simp add: get_min_ball_ball_event_time_def ball_ball_loops)
  show "agents (get_min_ball_ball_event_time ph self)
            = [BallOf (fst (balls self ! i)), BallOf (fst (balls self ! j))]"
    and "time (get_min_ball_ball_event_time ph self)
            = cur_t self + pair_collision_time ph (snd (balls self ! i)) (snd (balls self ! j))"
    by (simp_all add: r BallBallCollision_def)
qed

theorem ball_ball_source_witness:
  "(1::nat) < 2 \<and> 2 < length (balls demo_evolve)
   \<and> in_motion_pair (snd (balls demo_evolve ! 1)) (snd (balls demo_evolve ! 2))
   \<and> pair_collision_time demo_physics (snd (balls demo_evolve ! 1)) (snd (balls demo_evolve ! 2)) < PInf
   \<and> pair_collision_time demo_physics (snd (balls demo_evolve ! 0)) (snd (balls demo_evolve ! 1)) = Fin (21/100)
   \<and> pair_collision_time demo_physics (snd (balls demo_evolve ! 0)) (snd (balls demo_evolve ! 2)) = Fin (21/100)
   \<and> pair_collision_time demo_physics (snd (balls demo_evolve ! 0)) (snd (balls demo_evolve ! 3)) = Fin (21/100)
   \<and> pair_collision_time demo_physics (snd (balls demo_evolve ! 1)) (snd (balls demo_evolve ! 2)) = Fin (1/50)
   \<and> pair_collision_time demo_physics (snd (balls demo_evolve ! 1)) (snd (balls demo_evolve ! 3)) = Fin (1/50)
   \<and> pair_collision_time demo_physics (snd (balls demo_evolve ! 2)) (snd (balls demo_evolve ! 3)) = Fin 0
   \<and> \<not> in_motion_pair (snd (balls demo_evolve ! 2)) (snd (balls demo_evolve ! 3))
   \<and> event_type (get_min_ball_ball_event_time demo_physics demo_evolve) = BALL_BALL
   \<and> agents (get_min_ball_ball_event_time demo_physics demo_evolve) = [BallOf ''1'', BallOf ''2'']
   \<and> time (get_min_ball_ball_event_time demo_physics demo_evolve) = Fin 2
   \<and> length (balls demo_at_rest) = 2
   \<and> \<not> in_motion_pair (snd (balls demo_at_rest ! 0)) (snd (balls demo_at_rest ! 1))
   \<and> agents (get_min_ball_ball_event_time demo_physics demo_at_rest) = [DummyBall, DummyBall]
   \<and> time (get_min_ball_ball_event_time demo_physics demo_at_rest) = PInf"
proof -
  let ?T = "\<lambda>i j. pair_collision_time demo_physics (snd (balls demo_evolve ! i)) (snd (balls demo_evolve ! j))"
  let ?M = "\<lambda>i j. in_motion_pair (snd (balls demo_evolve ! i)) (snd (balls demo_evolve ! j))"
  have n12: "(1::nat) = Suc 0" "(2::nat) = Suc (Suc 0)" by simp_all
  have h1: "(1::nat) < 2 \<and> 2 < length (balls demo_evolve)"
    by (simp add: demo_length)
  have h2: "?M 1 2"
    unfolding n12 by (rule demo_in_motion)
  have h3: "?T 1 2 < PInf"
    unfolding n12 by (simp add: demo_pair_times)
  have h4: "\<forall>i' j'. i' < j' \<and> j' < length (balls demo_evolve) \<and> ?M i' j' \<longrightarrow> ?T 1 2 \<le> ?T i' j'"
    unfolding n12 demo_length
    by (auto simp: less_Suc_eq demo_pair_times demo_in_motion)
  have h5: "\<forall>i' j'. i' < j' \<and> j' < length (balls demo_evolve) \<and> ?M i' j'
                     \<and> (i' < 1 \<or> i' = 1 \<and> j' < 2) \<longrightarrow> ?T i' j' \<noteq> ?T 1 2"
    unfolding n12 demo_length
    by (auto simp: less_Suc_eq demo_pair_times demo_in_motion)
  have ids: "fst (balls demo_evolve ! 1) = ''1''" "fst (balls demo_evolve ! 2) = ''2''"
    "cur_t demo_evolve + ?T 1 2 = Fin 2"
    unfolding n12 by (simp_all add: demo_pair_times) (simp_all add: demo_evolve_def)
  from ball_ball_source [of demo_physics demo_evolve 1 2] h1 h2 h3 h4 h5
  have "event_type (get_min_ball_ball_event_time demo_physics demo_evolve) = BALL_BALL
      \<and> agents (get_min_ball_ball_event_time demo_physics demo_evolve)
          = [BallOf (fst (balls demo_evolve ! 1)), BallOf (fst (balls demo_evolve ! 2))]
      \<and> time (get_min_ball_ball_event_time demo_physics demo_evolve) = cur_t demo_evolve + ?T 1 2"
    by blast
  then have moving: "event_type (get_min_ball_ball_event_time demo_physics demo_evolve) = BALL_BALL
      \<and> agents (get_min_ball_ball_event_time demo_physics demo_evolve) = [BallOf ''1'', BallOf ''2'']
      \<and> time (get_min_ball_ball_event_time demo_physics demo_evolve) = Fin 2"
    unfolding ids .
  have h6: "\<forall>i j. i < j \<and> j < length (balls demo_at_rest)
              \<and> in_motion_pair (snd (balls demo_at_rest ! i)) (snd (balls demo_at_rest ! j))
          \<longrightarrow> pair_collision_time demo_physics (snd (balls demo_at_rest ! i)) (snd (balls demo_at_rest ! j)) = PInf"
    by (auto simp: less_Suc_eq in_motion_pair_def demo_at_rest_def demo_ball_def)
  have sum: "cur_t demo_at_rest + PInf = PInf"
    by (simp add: demo_at_rest_def)
  from ball_ball_source [of demo_physics demo_at_rest 0 0] h6
  have resting: "agents (get_min_ball_ball_event_time demo_physics demo_at_rest) = [DummyBall, DummyBall]
      \<and> time (get_min_ball_ball_event_time demo_physics demo_at_rest) = PInf"
    unfolding sum by blast
  have n3: "(3::nat) = Suc (Suc (Suc 0))" by simp
  have times: "?T 0 1 = Fin (21/100)" "?T 0 2 = Fin (21/100)" "?T 0 3 = Fin (21/100)"
    "?T 1 2 = Fin (1/50)" "?T 1 3 = Fin (1/50)" "?T 2 3 = Fin 0" "\<not> ?M 2 3"
    unfolding n12 n3 by (simp_all add: demo_pair_times demo_in_motion)
  have rest: "length (balls demo_at_rest) = 2"
    "\<not> in_motion_pair (snd (balls demo_at_rest ! 0)) (snd (balls demo_at_rest ! 1))"
    by (simp_all add: in_motion_pair_def demo_at_rest_def demo_ball_def)
  from h1 h2 h3 times rest moving resting show ?thesis
    by blast
qed

text \<open>
  Claim C6. The registry has the single name ``event-based''. A call that gives a name
  which is not registered fails in \<open>__new__\<close> with a \<open>ValueError\<close> whose message
  ends with the list of the registered names, and a call that leaves the algorithm to its
  default makes an instance of the event-based class. A call that gives the registered
  name itself does not: \<open>__new__\<close> selects the event-based class, and \<open>__init__\<close>
  then raises \<open>TypeError\<close>.
\<close>

theorem EvolveShot_construction:
  "map fst avail_algorithms = [''event-based''] \<and>
   (algorithm \<noteq> ''event-based'' \<longrightarrow>
      EvolveShot_call (Some algorithm) =
        Inl (ValueError (''You are expecting to evolve the system with algorithm ''
               @ [CHR 0x27] @ algorithm @ [CHR 0x27]
               @ '', which is not one of the possible db_types. Choose from: ''
               @ ''['' @ [CHR 0x27] @ ''event-based'' @ [CHR 0x27] @ '']''))) \<and>
   EvolveShot_call None = Inr EvolveShotEventBased \<and>
   EvolveShot_new ''event-based'' = Inr EvolveShotEventBased \<and>
   EvolveShot_call (Some ''event-based'') = Inl TypeError"
  by (simp add: EvolveShot_call_def EvolveShot_init_def EvolveShot_new_def avail_algorithms_def
      py_str_list_def py_repr_str_def)

theorem EvolveShot_construction_witness:
  "''rk4'' \<noteq> ''event-based'' \<and>
   EvolveShot_call (Some ''rk4'') =
     Inl (ValueError (''You are expecting to evolve the system with algorithm ''
            @ [CHR 0x27] @ ''rk4'' @ [CHR 0x27]
            @ '', which is not one of the possible db_types. Choose from: ''
            @ ''['' @ [CHR 0x27] @ ''event-based'' @ [CHR 0x27] @ '']'')) \<and>
   EvolveShot_call (Some ''event-based'') = Inl TypeError"
  using EvolveShot_construction [of "''rk4''"] by simp
















end
